theory Spec2Isabelle
  imports Complex_Main "HOL-Library.Sublist"
begin

section \<open>Data model\<close>

text \<open>
  The rows of the four tables, as the Sequelize models declare them. A JavaScript
  \<open>number\<close> that holds a measure (a similarity score, a threshold, a limit) is a
  \<^typ>\<open>real\<close>: the rounding of IEEE doubles is outside the model. Identifiers are
  integers, a \<open>Date\<close> is its number of milliseconds, a string is a list of 8-bit
  characters.
\<close>

type_synonym vector = "real list"
type_synonym date = int

datatype ConversationRole = RoleUser | RoleAssistant | RoleSystem

record User =
  u_id :: int
  u_email :: string
  u_password :: string
  u_fullname :: string

record Session =
  s_id :: int
  s_title :: "string option"
  s_user_id :: int
  s_session_id :: string
  s_created_at :: date
  s_updated_at :: date

record Conversation =
  c_id :: int
  c_content :: string
  c_user_id :: int
  c_session_id :: string
  c_conversation_id :: string
  c_role :: ConversationRole
  c_created_at :: date
  c_updated_at :: date

record ConversationSummary =
  cs_id :: int
  summary_text :: string
  conversation_ids :: "string list"
  summary_embedding :: "vector option"
  cs_created_at :: date
  cs_updated_at :: date

text \<open>\<open>SemanticSearchResult\<close> of \<open>conversationSummary.model.ts\<close>.\<close>

record SemanticSearchResult =
  r_id :: int
  r_summary_text :: string
  r_conversation_ids :: "string list"
  similarity_score :: real
  r_created_at :: date


section \<open>Values handed to the transport\<close>

text \<open>
  The data a handler answers with. \<open>TextResponseBuilder\<close> wraps
  \<open>JSON.stringify(data)\<close> as the one text item of a \<open>ToolResult\<close>; the model keeps
  the data itself where the code holds its serialisation, so \<open>tc_text\<close> is the value
  whose JSON text the tool returns. A \<open>Date\<close> is kept as such (\<open>JDate\<close>).
\<close>

datatype json =
    JNull
  | JBool bool
  | JNumber real
  | JString string
  | JDate date
  | JArray "json list"
  | JObject "(string \<times> json) list"

record ToolContent =
  tc_type :: string
  tc_text :: json

record ToolResult =
  content :: "ToolContent list"

definition TextResponseBuilder :: "json \<Rightarrow> ToolResult" where
  "TextResponseBuilder data = \<lparr>content = [\<lparr>tc_type = ''text'', tc_text = data\<rparr>]\<rparr>"

text \<open>What \<open>res.status(n).json(body)\<close> sends (\<open>res.json\<close> alone is status 200).\<close>

record HttpResponse =
  status :: nat
  body :: json

text \<open>Reading a response back: the payload of a tool result, a member of an object, its keys.\<close>

definition payload :: "ToolResult \<Rightarrow> json" where
  "payload r = (case content r of [] \<Rightarrow> JNull | c # _ \<Rightarrow> tc_text c)"

fun member :: "string \<Rightarrow> json \<Rightarrow> json option" where
  "member k (JObject kvs) = map_of kvs k"
| "member k _ = None"

fun keys :: "json \<Rightarrow> string list" where
  "keys (JObject kvs) = map fst kvs"
| "keys _ = []"

section \<open>JavaScript helpers\<close>

text \<open>
  \<open>String.prototype.trim\<close>: the white space of the 8-bit range (TAB, LF, VT, FF, CR,
  SPACE, NBSP) is removed at both ends.
\<close>

definition is_space :: "char \<Rightarrow> bool" where
  "is_space c = (of_char c \<in> {9::nat, 10, 11, 12, 13, 32, 160})"

definition trim :: "string \<Rightarrow> string" where
  "trim s = rev (dropWhile is_space (rev (dropWhile is_space s)))"

text \<open>The decimal digits of a natural number, as a template literal prints \<open>array.length\<close>.\<close>

fun string_of_nat :: "nat \<Rightarrow> string" where
  "string_of_nat n =
     (if n < 10 then [char_of (48 + n)]
      else string_of_nat (n div 10) @ [char_of (48 + n mod 10)])"

declare string_of_nat.simps [simp del]

text \<open>
  Rounding to the nearest integer, ties away from zero: what \<open>toFixed\<close> does to the
  last kept digit, and what PostgreSQL does when it casts a number to \<open>bigint\<close>.
\<close>

definition round_half_away :: "real \<Rightarrow> int" where
  "round_half_away x = (if 0 \<le> x then \<lfloor>x + 1 / 2\<rfloor> else - \<lfloor>- x + 1 / 2\<rfloor>)"

text \<open>\<open>parseFloat(x.toFixed(4))\<close>.\<close>

definition toFixed4 :: "real \<Rightarrow> real" where
  "toFixed4 x = real_of_int (round_half_away (x * 10000)) / 10000"

section \<open>The record store\<close>

text \<open>
  A thrown JavaScript \<open>Error\<close> is a value carrying its message; an awaited call
  that may throw returns \<open>error + 'a\<close>.
\<close>

datatype error = Error string

fun message :: "error \<Rightarrow> string" where
  "message (Error m) = m"

text \<open>The statements the services send, each with the values bound into it.\<close>

datatype sql =
    SelectSimilarSummaries vector real real
  | UpdateSummaryEmbedding int vector
  | SelectSummariesILike string real
  | SelectConversations real real
  | SelectConversationsILike string real real
  | SelectConversationsIn "string list"
  | InsertConversation int string string string ConversationRole
  | SelectSessionBySessionId string
  | InsertSession int string

text \<open>
  The PostgreSQL database behind Sequelize. Besides the tables it carries what the
  services use of the engine and do not implement themselves: the two sequences behind
  the \<open>autoIncrement\<close> keys, pgvector's cosine distance operator \<open><=>\<close> and the
  \<open>ILIKE\<close> operator (\<open>ilike pattern text\<close>). \<open>statements\<close> is the log of the
  statements the database was sent, oldest first, and \<open>outage\<close> says which of them (by
  position in the log) the database refuses, connection lost or server down, and with
  which message: this is how a store-level failure reaches the code.
\<close>

record Database =
  users :: "User list"
  sessions :: "Session list"
  conversations :: "Conversation list"
  conversations_summary :: "ConversationSummary list"
  sessions_id_seq :: int
  conversations_id_seq :: int
  cosine_distance :: "vector \<Rightarrow> vector \<Rightarrow> real"
  ilike :: "string \<Rightarrow> string \<Rightarrow> bool"
  statements :: "sql list"
  outage :: "nat \<Rightarrow> string option"

text \<open>
  One awaited statement (\<open>sequelize.query\<close>, \<open>Model.findAll\<close>, \<open>Model.create\<close>, ...):
  it is logged; it throws when the database refuses it, leaving the database as it was,
  and otherwise does what the statement does: it yields rows or raises, and leaves a
  database.
\<close>

definition logged :: "sql \<Rightarrow> Database \<Rightarrow> Database" where
  "logged q db = db\<lparr>statements := statements db @ [q]\<rparr>"

definition statement ::
  "Database \<Rightarrow> sql \<Rightarrow> (Database \<Rightarrow> (error + 'a) \<times> Database) \<Rightarrow> (error + 'a) \<times> Database" where
  "statement db q run =
     (case outage db (length (statements db)) of
        Some msg \<Rightarrow> (Inl (Error msg), logged q db)
      | None \<Rightarrow> (case run db of (outcome, db') \<Rightarrow> (outcome, logged q db')))"

text \<open>A statement that only reads: its outcome, the database untouched.\<close>

definition reading :: "(Database \<Rightarrow> error + 'a) \<Rightarrow> Database \<Rightarrow> (error + 'a) \<times> Database" where
  "reading rows db = (rows db, db)"

text \<open>
  \<open>LIMIT n\<close> and \<open>OFFSET n\<close>: PostgreSQL casts the number to \<open>bigint\<close> and rejects
  a negative count.
\<close>

definition sql_limit :: "real \<Rightarrow> 'a list \<Rightarrow> error + 'a list" where
  "sql_limit n rows =
     (if round_half_away n < 0 then Inl (Error ''LIMIT must not be negative'')
      else Inr (take (nat (round_half_away n)) rows))"



text \<open>
  \<open>ORDER BY key\<close> and \<open>ORDER BY key DESC\<close>. SQL leaves the order of rows with equal
  keys to the executor; the model takes a table in the order in which the executor
  delivers its rows and keeps that order among equal keys (\<^const>\<open>sort_key\<close> is
  stable), so every order the executor may produce is the result for some order of the
  table.
\<close>

definition order_by :: "('a \<Rightarrow> 'k::linorder) \<Rightarrow> 'a list \<Rightarrow> 'a list" where
  "order_by key rows = sort_key key rows"


section \<open>ConversationSummaryService\<close>

text \<open>The rows \<open>WHERE summary_embedding IS NOT NULL\<close>, each with its vector.\<close>

fun with_embedding :: "ConversationSummary list \<Rightarrow> (ConversationSummary \<times> vector) list" where
  "with_embedding [] = []"
| "with_embedding (s # rows) =
     (case summary_embedding s of
        None \<Rightarrow> with_embedding rows
      | Some e \<Rightarrow> (s, e) # with_embedding rows)"

text \<open>The \<open>SELECT\<close> list of \<open>semanticSearch\<close>: the score is \<open>1 - (summary_embedding <=> q)\<close>.\<close>

definition select_result ::
  "Database \<Rightarrow> vector \<Rightarrow> ConversationSummary \<times> vector \<Rightarrow> SemanticSearchResult" where
  "select_result db q row =
     \<lparr>r_id = cs_id (fst row),
      r_summary_text = summary_text (fst row),
      r_conversation_ids = conversation_ids (fst row),
      similarity_score = 1 - cosine_distance db (snd row) q,
      r_created_at = cs_created_at (fst row)\<rparr>"

text \<open>
  \<open>semanticSearch(queryEmbedding, limit, similarityThreshold)\<close>: one \<open>SELECT\<close>.
  First its \<open>WHERE summary_embedding IS NOT NULL AND 1 - (...) >= :threshold\<close> and
  \<open>ORDER BY summary_embedding <=> :embedding\<close>, then the statement with its
  \<open>LIMIT :limit\<close>. The literal \<open>'[...]'::vector\<close> of an empty array is rejected by
  pgvector, and so is the distance of two vectors of different lengths.
\<close>

definition similar_summaries :: "Database \<Rightarrow> vector \<Rightarrow> real \<Rightarrow> SemanticSearchResult list" where
  "similar_summaries db queryEmbedding similarityThreshold =
     map (select_result db queryEmbedding)
       (order_by (\<lambda>row. cosine_distance db (snd row) queryEmbedding)
         (filter (\<lambda>row. 1 - cosine_distance db (snd row) queryEmbedding \<ge> similarityThreshold)
           (with_embedding (conversations_summary db))))"

definition semanticSearch ::
  "Database \<Rightarrow> vector \<Rightarrow> real \<Rightarrow> real \<Rightarrow> (error + SemanticSearchResult list) \<times> Database" where
  "semanticSearch db queryEmbedding limit similarityThreshold =
     statement db (SelectSimilarSummaries queryEmbedding similarityThreshold limit)
       (reading (\<lambda>db.
          if queryEmbedding = [] then Inl (Error ''vector must have at least 1 dimension'')
          else if list_ex (\<lambda>row. length (snd row) \<noteq> length queryEmbedding)
                    (with_embedding (conversations_summary db))
          then Inl (Error ''different vector dimensions'')
          else sql_limit limit (similar_summaries db queryEmbedding similarityThreshold)))"

text \<open>
  \<open>searchByText(queryText, queryEmbedding, limit, similarityThreshold)\<close>: the search,
  with the query text and the number of results beside its rows.
\<close>

record TextSearchOutcome =
  ts_query :: string
  ts_results :: "SemanticSearchResult list"
  ts_totalMatches :: nat

definition searchByText ::
  "Database \<Rightarrow> string \<Rightarrow> vector \<Rightarrow> real \<Rightarrow> real \<Rightarrow> (error + TextSearchOutcome) \<times> Database" where
  "searchByText db queryText queryEmbedding limit similarityThreshold =
     (case semanticSearch db queryEmbedding limit similarityThreshold of
        (Inl e, db') \<Rightarrow> (Inl e, db')
      | (Inr found, db') \<Rightarrow>
          (Inr \<lparr>ts_query = queryText, ts_results = found, ts_totalMatches = length found\<rparr>,
           db'))"



section \<open>ConversationService and SessionService\<close>

text \<open>What \<open>create\<close> is given: \<open>CreateConversationDTO\<close> and \<open>CreateSessionDTO\<close>.\<close>

record CreateConversationDTO =
  dto_content :: string
  dto_user_id :: int
  dto_session_id :: string
  dto_conversation_id :: string
  dto_role :: ConversationRole

record CreateSessionDTO =
  new_title :: "string option"
  new_user_id :: int
  new_session_id :: string

text \<open>
  \<open>ConversationService.create\<close>: one \<open>INSERT\<close>. The key comes from the sequence,
  which advances whether or not the row is kept; \<open>user_id\<close> and \<open>session_id\<close> are
  foreign keys into \<open>users\<close> and \<open>sessions\<close>. \<open>now\<close> is the time Sequelize stamps.
\<close>

definition ConversationService_create ::
  "Database \<Rightarrow> date \<Rightarrow> CreateConversationDTO \<Rightarrow> (error + Conversation) \<times> Database" where
  "ConversationService_create db now data =
     statement db (InsertConversation (dto_user_id data) (dto_session_id data)
                     (dto_conversation_id data) (dto_content data) (dto_role data))
       (\<lambda>db.
          let ident = conversations_id_seq db + 1;
              db' = db\<lparr>conversations_id_seq := ident\<rparr>;
              row = \<lparr>c_id = ident, c_content = dto_content data, c_user_id = dto_user_id data,
                     c_session_id = dto_session_id data,
                     c_conversation_id = dto_conversation_id data, c_role = dto_role data,
                     c_created_at = now, c_updated_at = now\<rparr>
          in
          if \<not> list_ex (\<lambda>u. u_id u = dto_user_id data) (users db)
          then (Inl (Error ''violates foreign key constraint conversations_user_id_fkey''), db')
          else if \<not> list_ex (\<lambda>s. s_session_id s = dto_session_id data) (sessions db)
          then (Inl (Error ''violates foreign key constraint conversations_session_id_fkey''), db')
          else (Inr row, db'\<lparr>conversations := conversations db @ [row]\<rparr>))"


text \<open>\<open>findByConversationIds(conversationIds)\<close>: no statement for an empty array.\<close>

definition findByConversationIds ::
  "Database \<Rightarrow> string list \<Rightarrow> (error + Conversation list) \<times> Database" where
  "findByConversationIds db conversationIds =
     (if length conversationIds = 0 then (Inr [], db)
      else
        statement db (SelectConversationsIn conversationIds)
          (reading (\<lambda>db.
             Inr (order_by c_created_at
                   (filter (\<lambda>c. c_conversation_id c \<in> set conversationIds)
                     (conversations db))))))"


text \<open>\<open>SessionService.findBySessionId\<close>: \<open>findOne\<close> on the unique \<open>session_id\<close>.\<close>

definition findBySessionId ::
  "Database \<Rightarrow> string \<Rightarrow> (error + Session option) \<times> Database" where
  "findBySessionId db sessionId =
     statement db (SelectSessionBySessionId sessionId)
       (reading (\<lambda>db. Inr (find (\<lambda>s. s_session_id s = sessionId) (sessions db))))"

text \<open>
  \<open>SessionService.create\<close>: one \<open>INSERT\<close>. \<open>session_id\<close> is declared unique, and
  Sequelize reports the violated constraint as a \<open>Validation error\<close>; \<open>user_id\<close> is a
  foreign key into \<open>users\<close>.
\<close>

definition SessionService_create ::
  "Database \<Rightarrow> date \<Rightarrow> CreateSessionDTO \<Rightarrow> (error + Session) \<times> Database" where
  "SessionService_create db now data =
     statement db (InsertSession (new_user_id data) (new_session_id data))
       (\<lambda>db.
          let ident = sessions_id_seq db + 1;
              db' = db\<lparr>sessions_id_seq := ident\<rparr>;
              row = \<lparr>s_id = ident, s_title = new_title data, s_user_id = new_user_id data,
                     s_session_id = new_session_id data,
                     s_created_at = now, s_updated_at = now\<rparr>
          in
          if list_ex (\<lambda>s. s_session_id s = new_session_id data) (sessions db)
          then (Inl (Error ''Validation error''), db')
          else if \<not> list_ex (\<lambda>u. u_id u = new_user_id data) (users db)
          then (Inl (Error ''violates foreign key constraint sessions_user_id_fkey''), db')
          else (Inr row, db'\<lparr>sessions := sessions db @ [row]\<rparr>))"

section \<open>MCP tools: conversation summaries\<close>

definition or_default :: "'a \<Rightarrow> 'a option \<Rightarrow> 'a" where
  "or_default d x = (case x of None \<Rightarrow> d | Some v \<Rightarrow> v)"

fun role_name :: "ConversationRole \<Rightarrow> string" where
  "role_name RoleUser = ''user''"
| "role_name RoleAssistant = ''assistant''"
| "role_name RoleSystem = ''system''"

definition getRelevanceLevel :: "real \<Rightarrow> string" where
  "getRelevanceLevel score =
     (if score \<ge> 0.9 then ''very_high''
      else if score \<ge> 0.8 then ''high''
      else if score \<ge> 0.7 then ''good''
      else if score \<ge> 0.6 then ''moderate''
      else ''low'')"

text \<open>\<open>generateRecommendation(results)\<close>.\<close>

definition generateRecommendation :: "SemanticSearchResult list \<Rightarrow> string" where
  "generateRecommendation results =
     (if length results = 0 then ''No historical context found. Treat as new topic.''
      else
        let avgScore = foldl (\<lambda>sum r. sum + similarity_score r) 0 results
                         / real (length results) in
        if avgScore \<ge> 0.85
        then ''Strong historical context found. Reference past discussions in response.''
        else if avgScore \<ge> 0.7
        then ''Relevant historical context available. Consider incorporating insights.''
        else ''Some related context found but may not be directly relevant.'')"

text \<open>The objects of \<open>enrichedResults\<close>, and their JSON.\<close>

record EnrichedResult =
  e_id :: int
  summaryText :: string
  conversationIds :: "string list"
  similarityScore :: real
  relevanceLevel :: string
  createdAt :: date
  e_conversations :: "json list"

definition enrich :: "SemanticSearchResult \<Rightarrow> EnrichedResult" where
  "enrich result =
     \<lparr>e_id = r_id result,
      summaryText = r_summary_text result,
      conversationIds = r_conversation_ids result,
      similarityScore = toFixed4 (similarity_score result),
      relevanceLevel = getRelevanceLevel (similarity_score result),
      createdAt = r_created_at result,
      e_conversations = []\<rparr>"

definition enriched_json :: "EnrichedResult \<Rightarrow> json" where
  "enriched_json r =
     JObject [(''id'', JNumber (of_int (e_id r))),
              (''summaryText'', JString (summaryText r)),
              (''conversationIds'', JArray (map JString (conversationIds r))),
              (''similarityScore'', JNumber (similarityScore r)),
              (''relevanceLevel'', JString (relevanceLevel r)),
              (''createdAt'', JDate (createdAt r)),
              (''conversations'', JArray (e_conversations r))]"

definition conversation_view :: "Conversation \<Rightarrow> json" where
  "conversation_view c =
     JObject [(''id'', JNumber (of_int (c_id c))),
              (''conversationId'', JString (c_conversation_id c)),
              (''role'', JString (role_name (c_role c))),
              (''content'', JString (c_content c)),
              (''createdAt'', JDate (c_created_at c))]"

text \<open>
  The loop \<open>for (const result of enrichedResults)\<close> under \<open>includeConversations\<close>:
  one awaited \<open>findByConversationIds\<close> for every result that names conversations; a
  throw leaves the loop.
\<close>

fun fetch_conversations ::
  "Database \<Rightarrow> EnrichedResult list \<Rightarrow> (error + EnrichedResult list) \<times> Database" where
  "fetch_conversations db [] = (Inr [], db)"
| "fetch_conversations db (result # rest) =
     (if length (conversationIds result) > 0
      then
        (case findByConversationIds db (conversationIds result) of
           (Inl e, db') \<Rightarrow> (Inl e, db')
         | (Inr found, db') \<Rightarrow>
             (case fetch_conversations db' rest of
                (Inl e, db'') \<Rightarrow> (Inl e, db'')
              | (Inr rest', db'') \<Rightarrow>
                  (Inr (result\<lparr>e_conversations := map conversation_view found\<rparr> # rest'),
                   db'')))
      else
        (case fetch_conversations db rest of
           (Inl e, db') \<Rightarrow> (Inl e, db')
         | (Inr rest', db') \<Rightarrow> (Inr (result # rest'), db')))"

definition failure :: "string \<Rightarrow> json" where
  "failure msg = JObject [(''success'', JBool False), (''error'', JString msg)]"

text \<open>The clamps of the search tool.\<close>

definition effectiveLimit :: "real \<Rightarrow> real" where
  "effectiveLimit limit = min (max 1 limit) 20"

definition effectiveThreshold :: "real \<Rightarrow> real" where
  "effectiveThreshold similarityThreshold = min (max 0 similarityThreshold) 1"

text \<open>
  The \<open>try\<close> block of \<open>searchConversationSummaries.handler\<close>: what it returns, or
  the error thrown inside it.
\<close>

definition searchConversationSummaries_try ::
  "Database \<Rightarrow> string \<Rightarrow> vector \<Rightarrow> real \<Rightarrow> real \<Rightarrow> bool
     \<Rightarrow> (error + ToolResult) \<times> Database" where
  "searchConversationSummaries_try db patientMessage queryEmbedding limit
      similarityThreshold includeConversations =
     (case semanticSearch db queryEmbedding (effectiveLimit limit)
             (effectiveThreshold similarityThreshold) of
        (Inl e, db') \<Rightarrow> (Inl e, db')
      | (Inr searchResults, db') \<Rightarrow>
          if length searchResults = 0
          then
            (Inr (TextResponseBuilder
                   (JObject [(''success'', JBool True),
                             (''query'', JString patientMessage),
                             (''message'',
                                JString ''No sufficiently similar conversation summaries found''),
                             (''results'', JArray []),
                             (''totalMatches'', JNumber 0),
                             (''suggestion'',
                                JString (if similarityThreshold > 0.5
                                  then ''Try lowering the similarity threshold for broader results''
                                  else ''This may be a new topic with no historical context''))])),
             db')
          else
            (case (if includeConversations
                   then fetch_conversations db' (map enrich searchResults)
                   else (Inr (map enrich searchResults), db')) of
               (Inl e, db'') \<Rightarrow> (Inl e, db'')
             | (Inr enrichedResults, db'') \<Rightarrow>
                 (Inr (TextResponseBuilder
                        (JObject [(''success'', JBool True),
                                  (''query'', JString patientMessage),
                                  (''results'', JArray (map enriched_json enrichedResults)),
                                  (''totalMatches'', JNumber (real (length searchResults))),
                                  (''searchParams'',
                                     JObject [(''limit'', JNumber (effectiveLimit limit)),
                                              (''similarityThreshold'',
                                                 JNumber (effectiveThreshold similarityThreshold)),
                                              (''includeConversations'',
                                                 JBool includeConversations)]),
                                  (''recommendation'',
                                     JString (generateRecommendation searchResults))])),
                  db'')))"

text \<open>
  \<open>searchConversationSummaries.handler(params)\<close>; an optional parameter that is
  absent is \<open>None\<close>.
\<close>

definition searchConversationSummaries_handler ::
  "Database \<Rightarrow> string \<Rightarrow> vector \<Rightarrow> real option \<Rightarrow> real option \<Rightarrow> bool option
     \<Rightarrow> ToolResult \<times> Database" where
  "searchConversationSummaries_handler db patientMessage queryEmbedding limit
      similarityThreshold includeConversations =
     (if trim patientMessage = []
      then (TextResponseBuilder (failure ''Patient message is required''), db)
      else if length queryEmbedding = 0
      then (TextResponseBuilder (failure ''Query embedding (array of numbers) is required''), db)
      else if length queryEmbedding \<noteq> 1536
      then (TextResponseBuilder
              (failure (''Invalid embedding dimension: expected 1536, got ''
                          @ string_of_nat (length queryEmbedding))), db)
      else
        (case searchConversationSummaries_try db patientMessage queryEmbedding
                (or_default 5 limit) (or_default 0.7 similarityThreshold)
                (or_default False includeConversations) of
           (Inl e, db') \<Rightarrow>
             (TextResponseBuilder (failure (''Search failed: '' @ message e)), db')
         | (Inr result, db') \<Rightarrow> (result, db')))"




section \<open>MCP tools: conversations\<close>



section \<open>REST routes\<close>

definition respond :: "nat \<Rightarrow> json \<Rightarrow> HttpResponse" where
  "respond code data = \<lparr>status = code, body = data\<rparr>"

text \<open>
  \<open>POST /api/conversation-summaries/semantic-search\<close>. \<open>query_embedding\<close> is
  \<open>None\<close> when the body has none or it is not an array; the other members of the body
  are \<open>None\<close> when absent.
\<close>

definition result_json :: "SemanticSearchResult \<Rightarrow> json" where
  "result_json r =
     JObject [(''id'', JNumber (of_int (r_id r))),
              (''summary_text'', JString (r_summary_text r)),
              (''conversation_ids'', JArray (map JString (r_conversation_ids r))),
              (''similarity_score'', JNumber (similarity_score r)),
              (''created_at'', JDate (r_created_at r))]"

definition post_semantic_search ::
  "Database \<Rightarrow> vector option \<Rightarrow> string option \<Rightarrow> real option \<Rightarrow> real option
     \<Rightarrow> HttpResponse \<times> Database" where
  "post_semantic_search db query_embedding query_text limit similarity_threshold =
     (case query_embedding of
        None \<Rightarrow>
          (respond 400 (failure ''query_embedding (array of numbers) is required''), db)
      | Some v \<Rightarrow>
          (case searchByText db (or_default [] query_text) v (or_default 5 limit)
                  (or_default 0.7 similarity_threshold) of
             (Inl e, db') \<Rightarrow> (respond 500 (failure (message e)), db')
           | (Inr found, db') \<Rightarrow>
               (respond 200
                  (JObject [(''success'', JBool True),
                            (''data'',
                               JObject [(''query'', JString (ts_query found)),
                                        (''results'',
                                           JArray (map result_json (ts_results found))),
                                        (''totalMatches'',
                                           JNumber (real (ts_totalMatches found)))])]),
                db')))"


text \<open>
  \<open>POST /api/chat/message\<close>. The request carries the body's members and what the
  handler draws for it: the \<open>uuidv4()\<close> of the new conversation and the time of its
  writes.
\<close>

record MessageRequest =
  m_user_id :: int
  m_session_id :: string
  m_content :: string
  m_role :: string
  m_uuid :: string
  m_now :: date

fun role_of :: "string \<Rightarrow> ConversationRole option" where
  "role_of r =
     (if r = ''user'' then Some RoleUser
      else if r = ''assistant'' then Some RoleAssistant
      else if r = ''system'' then Some RoleSystem
      else None)"

definition conversation_json :: "Conversation \<Rightarrow> json" where
  "conversation_json c =
     JObject [(''id'', JNumber (of_int (c_id c))),
              (''content'', JString (c_content c)),
              (''user_id'', JNumber (of_int (c_user_id c))),
              (''session_id'', JString (c_session_id c)),
              (''conversation_id'', JString (c_conversation_id c)),
              (''role'', JString (role_name (c_role c))),
              (''created_at'', JDate (c_created_at c)),
              (''updated_at'', JDate (c_updated_at c))]"

text \<open>
  The handler is an \<open>async\<close> function: it runs from one \<open>await\<close> to the next, and
  other requests run in between. \<open>progress\<close> is where a request stands: received,
  after the awaited \<open>findBySessionId\<close>, after the awaited \<open>sessionService.create\<close>,
  or answered. Every throw is caught by the handler's \<open>catch\<close> and answered with 500.
\<close>

datatype progress =
    Received
  | Looked_up "Session option"
  | Session_ready
  | Responded HttpResponse

definition create_conversation :: "MessageRequest \<Rightarrow> Database \<Rightarrow> progress \<times> Database" where
  "create_conversation req db =
     (case ConversationService_create db (m_now req)
             \<lparr>dto_content = m_content req, dto_user_id = m_user_id req,
              dto_session_id = m_session_id req, dto_conversation_id = m_uuid req,
              dto_role = or_default RoleUser (role_of (m_role req))\<rparr> of
        (Inl e, db') \<Rightarrow> (Responded (respond 500 (failure (message e))), db')
      | (Inr conversation, db') \<Rightarrow>
          (Responded (respond 201 (JObject [(''success'', JBool True),
                                            (''data'', conversation_json conversation)])),
           db'))"

fun message_step :: "MessageRequest \<Rightarrow> progress \<Rightarrow> Database \<Rightarrow> progress \<times> Database" where
  "message_step req Received db =
     (if m_user_id req = 0 \<or> m_session_id req = [] \<or> m_content req = [] \<or> m_role req = []
      then (Responded (respond 400
              (failure ''user_id, session_id, content, and role are required'')), db)
      else if role_of (m_role req) = None
      then (Responded (respond 400
              (failure ''role must be one of: user, assistant, system'')), db)
      else
        (case findBySessionId db (m_session_id req) of
           (Inl e, db') \<Rightarrow> (Responded (respond 500 (failure (message e))), db')
         | (Inr session, db') \<Rightarrow> (Looked_up session, db')))"
| "message_step req (Looked_up None) db =
     (case SessionService_create db (m_now req)
             \<lparr>new_title = None, new_user_id = m_user_id req,
              new_session_id = m_session_id req\<rparr> of
        (Inl e, db') \<Rightarrow> (Responded (respond 500 (failure (message e))), db')
      | (Inr session, db') \<Rightarrow> (Session_ready, db'))"
| "message_step req (Looked_up (Some session)) db = create_conversation req db"
| "message_step req Session_ready db = create_conversation req db"
| "message_step req (Responded r) db = (Responded r, db)"


text \<open>One request served alone: its (at most three) awaited steps in a row.\<close>

definition post_message :: "Database \<Rightarrow> MessageRequest \<Rightarrow> progress \<times> Database" where
  "post_message db req =
     (case message_step req Received db of
        (p1, db1) \<Rightarrow>
          (case message_step req p1 db1 of
             (p2, db2) \<Rightarrow> message_step req p2 db2))"

text \<open>
  Two requests served concurrently: the schedule says whose step runs next, each step
  being atomic (the event loop runs a handler up to its next \<open>await\<close>, and the database
  runs one statement at a time).
\<close>

datatype caller = First | Second

fun interleave ::
  "caller list \<Rightarrow> MessageRequest \<Rightarrow> MessageRequest \<Rightarrow> (progress \<times> progress) \<times> Database
     \<Rightarrow> (progress \<times> progress) \<times> Database" where
  "interleave [] a b state = state"
| "interleave (First # schedule) a b ((pa, pb), db) =
     (case message_step a pa db of
        (pa', db') \<Rightarrow> interleave schedule a b ((pa', pb), db'))"
| "interleave (Second # schedule) a b ((pa, pb), db) =
     (case message_step b pb db of
        (pb', db') \<Rightarrow> interleave schedule a b ((pa, pb'), db'))"



section \<open>The operators of the database, for concrete stores\<close>

text \<open>
  Modelled from the spec: pgvector's \<open><=>\<close> is not code of this repository. Section 4.1
  defines the score as the cosine similarity \<open>dot(a,b) / (|a| |b|)\<close>; the operator is
  one minus it.
\<close>

definition dot :: "vector \<Rightarrow> vector \<Rightarrow> real" where
  "dot a b = sum_list (map2 (*) a b)"

definition cosine_similarity :: "vector \<Rightarrow> vector \<Rightarrow> real" where
  "cosine_similarity a b = dot a b / (sqrt (dot a a) * sqrt (dot b b))"

definition pg_cosine_distance :: "vector \<Rightarrow> vector \<Rightarrow> real" where
  "pg_cosine_distance a b = 1 - cosine_similarity a b"

text \<open>
  PostgreSQL's \<open>ILIKE\<close>: \<open>%\<close> matches any run of characters, \<open>_\<close> any one character,
  a backslash takes the next character literally, letters match without regard to case.
\<close>

definition lower :: "char \<Rightarrow> char" where
  "lower c = (if 65 \<le> (of_char c :: nat) \<and> (of_char c :: nat) \<le> 90
              then char_of ((of_char c :: nat) + 32) else c)"

fun like :: "string \<Rightarrow> string \<Rightarrow> bool" where
  "like [] t = (t = [])"
| "like (p # ps) t =
     (if p = CHR ''%'' then
        like ps t \<or> (case t of [] \<Rightarrow> False | c # cs \<Rightarrow> like (p # ps) cs)
      else if p = CHR ''_'' then
        (case t of [] \<Rightarrow> False | c # cs \<Rightarrow> like ps cs)
      else if p = CHR 0x5C then
        (case ps of
           [] \<Rightarrow> False
         | q # qs \<Rightarrow> (case t of [] \<Rightarrow> False | c # cs \<Rightarrow> q = c \<and> like qs cs))
      else
        (case t of [] \<Rightarrow> False | c # cs \<Rightarrow> p = c \<and> like ps cs))"

definition pg_ilike :: "string \<Rightarrow> string \<Rightarrow> bool" where
  "pg_ilike pattern t = like (map lower pattern) (map lower t)"

section \<open>Predicates of the specification\<close>



text \<open>
  What a call sent to the database: the statements logged between the database it was
  given and the database it hands back.
\<close>

definition sent :: "Database \<Rightarrow> Database \<Rightarrow> sql list" where
  "sent db db' = drop (length (statements db)) (statements db')"

text \<open>A similarity search is within the caps: threshold in [0, 1], limit in [1, 20].\<close>

fun clamped_search :: "sql \<Rightarrow> bool" where
  "clamped_search (SelectSimilarSummaries q threshold limit) =
     (0 \<le> threshold \<and> threshold \<le> 1 \<and> 1 \<le> limit \<and> limit \<le> 20)"
| "clamped_search q = True"

text \<open>The number of results a tool answer carries (none when it has no \<open>results\<close>).\<close>

definition result_count :: "ToolResult \<Rightarrow> nat" where
  "result_count r =
     (case member ''results'' (payload r) of Some (JArray rs) \<Rightarrow> length rs | _ \<Rightarrow> 0)"

text \<open>
  The message of the first statement that the database refused between \<open>db\<close> and
  \<open>db'\<close>, if it refused one.
\<close>

definition refused :: "Database \<Rightarrow> Database \<Rightarrow> string option" where
  "refused db db' =
     (case filter (\<lambda>m. m \<noteq> None)
             (map (outage db) [length (statements db) ..< length (statements db')]) of
        [] \<Rightarrow> None
      | m # rest \<Rightarrow> m)"





section \<open>Concrete stores and requests\<close>

definition empty_db :: Database where
  "empty_db =
     \<lparr>users = [], sessions = [], conversations = [], conversations_summary = [],
      sessions_id_seq = 0, conversations_id_seq = 0,
      cosine_distance = pg_cosine_distance, ilike = pg_ilike,
      statements = [], outage = (\<lambda>n. None)\<rparr>"

definition summary :: "int \<Rightarrow> vector option \<Rightarrow> date \<Rightarrow> ConversationSummary" where
  "summary i e t =
     \<lparr>cs_id = i, summary_text = ''summary'', conversation_ids = [], summary_embedding = e,
      cs_created_at = t, cs_updated_at = t\<rparr>"



text \<open>
  Summaries that score 0.8, 0.6 and 1 against the query \<open>[1, 0]\<close>, and one without an
  embedding.
\<close>

definition ranked_db :: Database where
  "ranked_db = empty_db\<lparr>conversations_summary :=
                  [summary 1 (Some [4, 3]) 100, summary 2 (Some [3, 4]) 200,
                   summary 3 (Some [1, 0]) 300, summary 4 None 400]\<rparr>"

text \<open>Vectors of the dimension the search tool accepts, and a store holding one of them.\<close>

definition ones :: vector where
  "ones = replicate 1536 1"

definition minus_ones :: vector where
  "minus_ones = replicate 1536 (- 1)"

definition tool_db :: Database where
  "tool_db = empty_db\<lparr>conversations_summary := [summary 1 (Some ones) 100]\<rparr>"

text \<open>The same store with the database down.\<close>

definition down_db :: Database where
  "down_db = tool_db\<lparr>outage := (\<lambda>n. Some ''connection refused'')\<rparr>"


text \<open>A store with 21 summaries, each holding the embedding \<open>ones\<close>.\<close>

definition crowded_db :: Database where
  "crowded_db = empty_db\<lparr>conversations_summary :=
                   map (\<lambda>i. summary (int i) (Some ones) (int i)) [0 ..< 21]\<rparr>"







section \<open>Properties of the recommendation policy\<close>







section \<open>Ranking: order and threshold\<close>

lemma statement_reading:
  "statement db q (reading rows) =
     (case outage db (length (statements db)) of
        Some msg \<Rightarrow> (Inl (Error msg), logged q db)
      | None \<Rightarrow> (rows db, logged q db))"
  by (simp add: statement_def reading_def split: option.split)

lemma semanticSearch_Inr:
  assumes "fst (semanticSearch db q limit thr) = Inr results"
  shows "results = take (nat (round_half_away limit)) (similar_summaries db q thr)"
    and "outage db (length (statements db)) = None"
    and "q \<noteq> []"
    and "\<not> list_ex (\<lambda>row. length (snd row) \<noteq> length q) (with_embedding (conversations_summary db))"
    and "0 \<le> round_half_away limit"
  using assms
  by (auto simp add: semanticSearch_def statement_reading sql_limit_def
      split: option.splits if_splits)


lemma similar_summaries_scores:
  "map similarity_score (similar_summaries db q thr)
     = map (\<lambda>row. 1 - cosine_distance db (snd row) q)
         (sort_key (\<lambda>row. cosine_distance db (snd row) q)
           (filter (\<lambda>row. 1 - cosine_distance db (snd row) q \<ge> thr)
             (with_embedding (conversations_summary db))))"
  by (simp add: similar_summaries_def order_by_def select_result_def comp_def)







lemma sqrt_25: "sqrt 25 = 5"
  by (rule real_sqrt_unique) simp_all

lemmas eval_defs = empty_db_def summary_def pg_cosine_distance_def cosine_similarity_def dot_def
  select_result_def similar_summaries_def order_by_def sql_limit_def round_half_away_def
  semanticSearch_def statement_reading logged_def sqrt_25



lemma ranked_eval2: "fst (semanticSearch ranked_db [1, 0] 5 0.7) =
   Inr [\<lparr>r_id = 3, r_summary_text = ''summary'', r_conversation_ids = [],
         similarity_score = 1, r_created_at = 300\<rparr>,
        \<lparr>r_id = 1, r_summary_text = ''summary'', r_conversation_ids = [],
         similarity_score = 0.8, r_created_at = 100\<rparr>]"
  by (simp add: ranked_db_def eval_defs)







section \<open>The search tool: validation\<close>

text \<open>
  C6 (as amended). Whatever the other parameters and the state of the store, the search
  tool \<open>searchConversationSummaries\<close> answers
  a query vector that is empty or not of 1536 components with a failure naming the
  invalid input, and hands back the store as it received it: no statement is sent.
\<close>

theorem search_tool_rejects_bad_embedding:
  assumes "length queryEmbedding \<noteq> 1536"
  shows "searchConversationSummaries_handler db patientMessage queryEmbedding limit
           similarityThreshold includeConversations
         = (TextResponseBuilder
              (failure
                (if trim patientMessage = [] then ''Patient message is required''
                 else if queryEmbedding = []
                 then ''Query embedding (array of numbers) is required''
                 else ''Invalid embedding dimension: expected 1536, got ''
                        @ string_of_nat (length queryEmbedding))),
            db)"
  using assms by (simp add: searchConversationSummaries_handler_def)

lemma trim_example: "trim ''I feel anxious'' = ''I feel anxious''"
  by (simp add: trim_def is_space_def)

lemma string_of_nat_10: "string_of_nat 10 = ''10''"
  by code_simp

theorem search_tool_rejects_bad_embedding_witness:
  "length (replicate 10 (1 / 2 :: real)) \<noteq> 1536
   \<and> searchConversationSummaries_handler down_db ''I feel anxious'' (replicate 10 (1 / 2))
         None None None
       = (TextResponseBuilder
            (failure ''Invalid embedding dimension: expected 1536, got 10''), down_db)
   \<and> searchConversationSummaries_handler down_db ''I feel anxious'' [] None None None
       = (TextResponseBuilder
            (failure ''Query embedding (array of numbers) is required''), down_db)"
  using search_tool_rejects_bad_embedding [of "replicate 10 (1 / 2)" down_db "''I feel anxious''" None None None]
    search_tool_rejects_bad_embedding [of "[]" down_db "''I feel anxious''" None None None]
  by (simp add: trim_example string_of_nat_10)

section \<open>The search tool: clamps, empty results, failures\<close>

lemma logged_fields [simp]:
  "statements (logged q db) = statements db @ [q]"
  "outage (logged q db) = outage db"
  "conversations_summary (logged q db) = conversations_summary db"
  "conversations (logged q db) = conversations db"
  "sessions (logged q db) = sessions db"
  "users (logged q db) = users db"
  "cosine_distance (logged q db) = cosine_distance db"
  by (simp_all add: logged_def)

lemma semanticSearch_snd:
  "snd (semanticSearch db q limit thr) = logged (SelectSimilarSummaries q thr limit) db"
  by (simp add: semanticSearch_def statement_reading split: option.split)

lemma findByConversationIds_snd:
  "snd (findByConversationIds db ids)
     = (if ids = [] then db else logged (SelectConversationsIn ids) db)"
  by (simp add: findByConversationIds_def statement_reading split: option.split)

lemma fetch_conversations_log:
  "\<exists>xs. statements (snd (fetch_conversations db rs)) = statements db @ xs
        \<and> list_all clamped_search xs
        \<and> outage (snd (fetch_conversations db rs)) = outage db"
proof (induction rs arbitrary: db)
  case Nil
  show ?case by simp
next
  case (Cons r rs)
  show ?case
  proof (cases "conversationIds r = []")
    case True
    then show ?thesis
      using Cons.IH [of db] by (auto split: prod.splits sum.splits)
  next
    case False
    let ?db1 = "logged (SelectConversationsIn (conversationIds r)) db"
    have snd1: "snd (findByConversationIds db (conversationIds r)) = ?db1"
      using False by (simp add: findByConversationIds_snd)
    obtain xs where xs: "statements (snd (fetch_conversations ?db1 rs)) = statements ?db1 @ xs"
      "list_all clamped_search xs" "outage (snd (fetch_conversations ?db1 rs)) = outage ?db1"
      using Cons.IH [of ?db1] by blast
    show ?thesis
    proof (cases "findByConversationIds db (conversationIds r)")
      case (Pair out db')
      with snd1 have db': "db' = ?db1" by simp
      show ?thesis
      proof (cases out)
        case (Inl e)
        with Pair db' False show ?thesis by simp
      next
        case (Inr found)
        with Pair db' False xs show ?thesis
          by (auto split: prod.splits sum.splits)
      qed
    qed
  qed
qed

lemma fetch_conversations_length:
  "fetch_conversations db rs = (Inr rs', db') \<Longrightarrow> length rs' = length rs"
  by (induction rs arbitrary: db rs' db') (auto split: prod.splits sum.splits if_splits)


lemma round_half_away_clamped: "1 \<le> x \<Longrightarrow> x \<le> 20 \<Longrightarrow> nat (round_half_away x) \<le> 20"
  by (simp add: round_half_away_def) linarith

lemma effectiveLimit_range: "1 \<le> effectiveLimit l \<and> effectiveLimit l \<le> 20"
  by (simp add: effectiveLimit_def)

lemma effectiveThreshold_range: "0 \<le> effectiveThreshold t \<and> effectiveThreshold t \<le> 1"
  by (simp add: effectiveThreshold_def)

lemma semanticSearch_length:
  assumes "semanticSearch db q l t = (Inr rs, db')"
  shows "length rs \<le> nat (round_half_away l)"
proof -
  from assms have "fst (semanticSearch db q l t) = Inr rs" by simp
  then have "rs = take (nat (round_half_away l)) (similar_summaries db q t)"
    by (rule semanticSearch_Inr)
  then show ?thesis by simp
qed

lemma try_log:
  "\<exists>xs. statements (snd (searchConversationSummaries_try db pm q l t i))
          = statements db
            @ SelectSimilarSummaries q (effectiveThreshold t) (effectiveLimit l) # xs
        \<and> list_all clamped_search xs
        \<and> outage (snd (searchConversationSummaries_try db pm q l t i)) = outage db"
proof -
  let ?db1 = "logged (SelectSimilarSummaries q (effectiveThreshold t) (effectiveLimit l)) db"
  obtain out db1 where sem:
    "semanticSearch db q (effectiveLimit l) (effectiveThreshold t) = (out, db1)"
    by (cases "semanticSearch db q (effectiveLimit l) (effectiveThreshold t)")
  then have db1: "db1 = ?db1"
    using semanticSearch_snd [of db q "effectiveLimit l" "effectiveThreshold t"] by simp
  show ?thesis
  proof (cases out)
    case (Inl e)
    with sem db1 show ?thesis
      by (simp add: searchConversationSummaries_try_def)
  next
    case (Inr rs)
    obtain xs where xs:
      "statements (snd (fetch_conversations ?db1 (map enrich rs))) = statements ?db1 @ xs"
      "list_all clamped_search xs"
      "outage (snd (fetch_conversations ?db1 (map enrich rs))) = outage ?db1"
      using fetch_conversations_log [of ?db1 "map enrich rs"] by blast
    with sem db1 Inr show ?thesis
      by (auto simp add: searchConversationSummaries_try_def split: prod.splits sum.splits)
  qed
qed

lemma result_count_results:
  "result_count (TextResponseBuilder (JObject ((''success'', a) # (''query'', b)
      # (''results'', JArray rs) # rest))) = length rs"
  by (simp add: result_count_def TextResponseBuilder_def payload_def)

lemma try_count:
  assumes "searchConversationSummaries_try db pm q l t i = (Inr r, db')"
  shows "result_count r \<le> 20"
proof -
  obtain out db1 where sem:
    "semanticSearch db q (effectiveLimit l) (effectiveThreshold t) = (out, db1)"
    by (cases "semanticSearch db q (effectiveLimit l) (effectiveThreshold t)")
  show ?thesis
  proof (cases out)
    case (Inl e)
    with sem assms show ?thesis
      by (simp add: searchConversationSummaries_try_def)
  next
    case (Inr rs)
    have "length rs \<le> nat (round_half_away (effectiveLimit l))"
      using sem Inr by (auto dest: semanticSearch_length)
    also have "\<dots> \<le> 20"
      using effectiveLimit_range [of l] by (simp add: round_half_away_clamped)
    finally have len: "length rs \<le> 20" .
    show ?thesis
    proof (cases "rs = []")
      case True
      with sem Inr assms show ?thesis
        by (auto simp add: searchConversationSummaries_try_def result_count_def
            TextResponseBuilder_def payload_def)
    next
      case False
      show ?thesis
      proof (cases i)
        case False
        with sem Inr assms \<open>rs \<noteq> []\<close> len show ?thesis
          by (auto simp add: searchConversationSummaries_try_def result_count_def
              TextResponseBuilder_def payload_def)
      next
        case True
        with sem Inr assms \<open>rs \<noteq> []\<close> len show ?thesis
          by (auto simp add: searchConversationSummaries_try_def result_count_def
              TextResponseBuilder_def payload_def split: prod.splits sum.splits
              dest!: fetch_conversations_length)
      qed
    qed
  qed
qed

lemma handler_valid:
  assumes "trim pm \<noteq> []" "length q = 1536"
  shows "searchConversationSummaries_handler db pm q l t i =
     (case searchConversationSummaries_try db pm q (or_default 5 l) (or_default 0.7 t)
             (or_default False i) of
        (Inl e, db') \<Rightarrow> (TextResponseBuilder (failure (''Search failed: '' @ message e)), db')
      | (Inr result, db') \<Rightarrow> (result, db'))"
  using assms by (simp add: searchConversationSummaries_handler_def)

lemma handler_invalid:
  assumes "trim pm = [] \<or> length q \<noteq> 1536"
  shows "\<exists>msg. searchConversationSummaries_handler db pm q l t i
            = (TextResponseBuilder (failure msg), db)"
  using assms by (auto simp add: searchConversationSummaries_handler_def)

lemma result_count_failure [simp]: "result_count (TextResponseBuilder (failure msg)) = 0"
  by (simp add: result_count_def TextResponseBuilder_def failure_def payload_def)

lemma sent_self [simp]: "sent db db = []"
  by (simp add: sent_def)

lemma sent_append: "statements db' = statements db @ xs \<Longrightarrow> sent db db' = xs"
  by (simp add: sent_def)

text \<open>
  C7 (as amended). Whatever limit and threshold the caller supplies, every similarity
  search the search tool \<open>searchConversationSummaries\<close> sends carries a threshold in [0, 1] and a limit in [1, 20], and the
  answer never holds more than 20 results. When the parameters pass validation, the
  first statement sent is the similarity search with the caller's values clamped.
\<close>

theorem search_tool_clamps:
  "list_all clamped_search
     (sent db (snd (searchConversationSummaries_handler db pm q limit threshold inc)))
   \<and> result_count (fst (searchConversationSummaries_handler db pm q limit threshold inc)) \<le> 20
   \<and> (trim pm \<noteq> [] \<and> length q = 1536 \<longrightarrow>
        (\<exists>rest. sent db (snd (searchConversationSummaries_handler db pm q limit threshold inc))
           = SelectSimilarSummaries q (effectiveThreshold (or_default 0.7 threshold))
               (effectiveLimit (or_default 5 limit)) # rest)
        \<and> 0 \<le> effectiveThreshold (or_default 0.7 threshold)
        \<and> effectiveThreshold (or_default 0.7 threshold) \<le> 1
        \<and> 1 \<le> effectiveLimit (or_default 5 limit)
        \<and> effectiveLimit (or_default 5 limit) \<le> 20)"
proof (cases "trim pm \<noteq> [] \<and> length q = 1536")
  case False
  then obtain msg where "searchConversationSummaries_handler db pm q limit threshold inc
      = (TextResponseBuilder (failure msg), db)"
    using handler_invalid [of pm q db limit threshold inc] by auto
  with False show ?thesis by auto
next
  case True
  let ?l = "or_default 5 limit" and ?t = "or_default 0.7 threshold"
    and ?i = "or_default False inc"
  let ?body = "searchConversationSummaries_try db pm q ?l ?t ?i"
  obtain xs where xs: "statements (snd ?body)
      = statements db @ SelectSimilarSummaries q (effectiveThreshold ?t) (effectiveLimit ?l) # xs"
    "list_all clamped_search xs"
    using try_log [of db pm q ?l ?t ?i] by blast
  have snd_eq: "snd (searchConversationSummaries_handler db pm q limit threshold inc) = snd ?body"
    using True by (simp add: handler_valid split: prod.splits sum.splits)
  have sent_eq: "sent db (snd ?body)
      = SelectSimilarSummaries q (effectiveThreshold ?t) (effectiveLimit ?l) # xs"
    using xs(1) by (rule sent_append)
  have count: "result_count (fst (searchConversationSummaries_handler db pm q limit threshold inc))
      \<le> 20"
    using True by (auto simp add: handler_valid split: prod.splits sum.splits dest: try_count)
  show ?thesis
    using True xs(2) count effectiveLimit_range [of ?l] effectiveThreshold_range [of ?t]
    by (simp add: snd_eq sent_eq)
qed


lemma dot_replicate: "dot (replicate n a) (replicate n b) = real n * (a * b)"
  by (induction n) (simp_all add: dot_def algebra_simps)

lemma distance_ones [simp]: "pg_cosine_distance ones ones = 0"
  by (simp add: pg_cosine_distance_def cosine_similarity_def ones_def dot_replicate)

lemma distance_minus_ones [simp]: "pg_cosine_distance minus_ones ones = 2"
  by (simp add: pg_cosine_distance_def cosine_similarity_def ones_def minus_ones_def dot_replicate)

lemma length_ones [simp]: "length ones = 1536" "ones \<noteq> []"
  by (simp_all add: ones_def)

lemma length_minus_ones [simp]: "length minus_ones = 1536" "minus_ones \<noteq> []"
  by (simp_all add: minus_ones_def)

text \<open>A caller asking for 50 results above 1.5 gets the search for 20 results above 1.\<close>

theorem search_tool_clamps_witness:
  "trim ''I feel anxious'' \<noteq> [] \<and> length ones = 1536
   \<and> (\<exists>rest. sent tool_db
          (snd (searchConversationSummaries_handler tool_db ''I feel anxious'' ones
                  (Some 50) (Some 1.5) None))
        = SelectSimilarSummaries ones 1 20 # rest)
   \<and> result_count
         (fst (searchConversationSummaries_handler tool_db ''I feel anxious'' ones
                 (Some 50) (Some 1.5) None)) \<le> 20"
  using search_tool_clamps [of tool_db "''I feel anxious''" ones "Some 50" "Some 1.5" None]
  by (simp add: trim_example effectiveLimit_def effectiveThreshold_def or_default_def)


lemma distance_ones_minus [simp]: "pg_cosine_distance ones minus_ones = 2"
  by (simp add: pg_cosine_distance_def cosine_similarity_def ones_def minus_ones_def dot_replicate)

lemmas store_defs = empty_db_def summary_def select_result_def similar_summaries_def
  order_by_def sql_limit_def round_half_away_def semanticSearch_def statement_reading logged_def

lemma search_below_threshold:
  "fst (semanticSearch tool_db minus_ones 5 0.7) = Inr []"
  by (simp add: tool_db_def store_defs)

lemma search_empty_store:
  "fst (semanticSearch empty_db ones 5 0.4) = Inr []"
  by (simp add: store_defs)

lemma search_match:
  "fst (semanticSearch tool_db ones 5 0.7) =
     Inr [\<lparr>r_id = 1, r_summary_text = ''summary'', r_conversation_ids = [],
           similarity_score = 1, r_created_at = 100\<rparr>]"
  by (simp add: tool_db_def store_defs)

text \<open>
  C3 (as amended). When the search of a validated query returns no row, the tool answers
  \<open>success: true\<close> with an empty \<open>results\<close> list, \<open>totalMatches\<close> 0, a \<open>message\<close>
  and a \<open>suggestion\<close>: to lower the threshold when the caller's threshold is above
  0.5, and that this may be a new topic otherwise. The answer is determined by the
  message and the threshold alone, so an empty store and a store whose matches all fell
  below the threshold are answered alike; it has no \<open>searchParams\<close> and no
  \<open>recommendation\<close>.
\<close>

theorem search_tool_no_results:
  assumes "trim pm \<noteq> []" and "length q = 1536"
    and "fst (semanticSearch db q (effectiveLimit (or_default 5 limit))
                (effectiveThreshold (or_default 0.7 threshold))) = Inr []"
  shows "payload (fst (searchConversationSummaries_handler db pm q limit threshold inc)) =
           JObject [(''success'', JBool True),
                    (''query'', JString pm),
                    (''message'', JString ''No sufficiently similar conversation summaries found''),
                    (''results'', JArray []),
                    (''totalMatches'', JNumber 0),
                    (''suggestion'',
                       JString (if or_default 0.7 threshold > 0.5
                         then ''Try lowering the similarity threshold for broader results''
                         else ''This may be a new topic with no historical context''))]"
proof -
  obtain db1 where "semanticSearch db q (effectiveLimit (or_default 5 limit))
                (effectiveThreshold (or_default 0.7 threshold)) = (Inr [], db1)"
    using assms(3)
    by (cases "semanticSearch db q (effectiveLimit (or_default 5 limit))
                (effectiveThreshold (or_default 0.7 threshold))") simp
  then show ?thesis
    using assms(1,2)
    by (simp add: handler_valid searchConversationSummaries_try_def TextResponseBuilder_def
        payload_def)
qed

lemmas tool_eval = trim_example effectiveLimit_def effectiveThreshold_def or_default_def

text \<open>A match below the threshold, and an empty store searched with threshold 0.4.\<close>

theorem search_tool_no_results_witness:
  "trim ''I feel anxious'' \<noteq> [] \<and> length minus_ones = 1536
   \<and> fst (semanticSearch tool_db minus_ones 5 0.7) = Inr []
   \<and> fst (semanticSearch empty_db ones 5 0.4) = Inr []
   \<and> payload (fst (searchConversationSummaries_handler tool_db ''I feel anxious'' minus_ones
                     None None None)) =
        JObject [(''success'', JBool True),
                 (''query'', JString ''I feel anxious''),
                 (''message'', JString ''No sufficiently similar conversation summaries found''),
                 (''results'', JArray []),
                 (''totalMatches'', JNumber 0),
                 (''suggestion'',
                    JString ''Try lowering the similarity threshold for broader results'')]
   \<and> payload (fst (searchConversationSummaries_handler empty_db ''I feel anxious'' ones
                     None (Some 0.4) None)) =
        JObject [(''success'', JBool True),
                 (''query'', JString ''I feel anxious''),
                 (''message'', JString ''No sufficiently similar conversation summaries found''),
                 (''results'', JArray []),
                 (''totalMatches'', JNumber 0),
                 (''suggestion'',
                    JString ''This may be a new topic with no historical context'')]"
  using search_tool_no_results [of "''I feel anxious''" minus_ones tool_db None None None]
    search_tool_no_results [of "''I feel anxious''" ones empty_db None "Some 0.4" None]
    search_below_threshold search_empty_store
  by (simp add: tool_eval)

lemma handler_match:
  "payload (fst (searchConversationSummaries_handler tool_db ''I feel anxious'' ones
                     None None None)) =
        JObject [(''success'', JBool True),
                 (''query'', JString ''I feel anxious''),
                 (''results'',
                    JArray [JObject [(''id'', JNumber 1),
                                     (''summaryText'', JString ''summary''),
                                     (''conversationIds'', JArray []),
                                     (''similarityScore'', JNumber 1),
                                     (''relevanceLevel'', JString ''very_high''),
                                     (''createdAt'', JDate 100),
                                     (''conversations'', JArray [])]]),
                 (''totalMatches'', JNumber 1),
                 (''searchParams'',
                    JObject [(''limit'', JNumber 5),
                             (''similarityThreshold'', JNumber 0.7),
                             (''includeConversations'', JBool False)]),
                 (''recommendation'',
                    JString ''Strong historical context found. Reference past discussions in response.'')]"
proof -
  obtain db1 where "semanticSearch tool_db ones 5 0.7 =
     (Inr [\<lparr>r_id = 1, r_summary_text = ''summary'', r_conversation_ids = [],
           similarity_score = 1, r_created_at = 100\<rparr>], db1)"
    using search_match by (cases "semanticSearch tool_db ones 5 0.7") simp
  then show ?thesis
    by (simp add: handler_valid searchConversationSummaries_try_def TextResponseBuilder_def
        payload_def tool_eval enrich_def enriched_json_def toFixed4_def round_half_away_def
        getRelevanceLevel_def generateRecommendation_def)
qed

lemma handler_below:
  "payload (fst (searchConversationSummaries_handler tool_db ''I feel anxious'' minus_ones
                     None None None)) =
        JObject [(''success'', JBool True),
                 (''query'', JString ''I feel anxious''),
                 (''message'', JString ''No sufficiently similar conversation summaries found''),
                 (''results'', JArray []),
                 (''totalMatches'', JNumber 0),
                 (''suggestion'',
                    JString ''Try lowering the similarity threshold for broader results'')]"
proof -
  obtain db1 where "semanticSearch tool_db minus_ones 5 0.7 = (Inr [], db1)"
    using search_below_threshold by (cases "semanticSearch tool_db minus_ones 5 0.7") simp
  then show ?thesis
    by (simp add: handler_valid searchConversationSummaries_try_def TextResponseBuilder_def
        payload_def tool_eval)
qed

text \<open>
  C3 as stated fails: the answer to a search without results has neither the members of
  the answer to a search with results nor a recommendation.
\<close>

theorem search_tool_no_results_counterexample:
  "payload (fst (searchConversationSummaries_handler tool_db ''I feel anxious'' minus_ones
                   None None None)) =
        JObject [(''success'', JBool True),
                 (''query'', JString ''I feel anxious''),
                 (''message'', JString ''No sufficiently similar conversation summaries found''),
                 (''results'', JArray []),
                 (''totalMatches'', JNumber 0),
                 (''suggestion'',
                    JString ''Try lowering the similarity threshold for broader results'')]
   \<and> member ''recommendation''
         (payload (fst (searchConversationSummaries_handler tool_db ''I feel anxious''
                          minus_ones None None None))) = None
   \<and> keys (payload (fst (searchConversationSummaries_handler tool_db ''I feel anxious''
                          minus_ones None None None)))
       = [''success'', ''query'', ''message'', ''results'', ''totalMatches'', ''suggestion'']
   \<and> keys (payload (fst (searchConversationSummaries_handler tool_db ''I feel anxious''
                          ones None None None)))
       = [''success'', ''query'', ''results'', ''totalMatches'', ''searchParams'',
          ''recommendation'']"
  by (simp add: handler_below handler_match)


lemma refused_self [simp]: "refused db db = None"
  by (simp add: refused_def)




lemma Error_message [simp]: "Error (message e) = e"
  by (cases e) simp



lemma semanticSearch_outcome:
  "semanticSearch db q l t
     = (case outage db (length (statements db)) of
          Some m \<Rightarrow> Inl (Error m)
        | None \<Rightarrow>
            if q = [] then Inl (Error ''vector must have at least 1 dimension'')
            else if list_ex (\<lambda>row. length (snd row) \<noteq> length q)
                      (with_embedding (conversations_summary db))
            then Inl (Error ''different vector dimensions'')
            else sql_limit l (similar_summaries db q t),
        logged (SelectSimilarSummaries q t l) db)"
  by (simp add: semanticSearch_def statement_reading split: option.split)



lemma member_success_failure [simp]:
  "member ''success'' (payload (TextResponseBuilder (failure msg))) = Some (JBool False)"
  "member ''error'' (payload (TextResponseBuilder (failure msg))) = Some (JString msg)"
  by (simp_all add: payload_def TextResponseBuilder_def failure_def)

lemma payload_builder [simp]: "payload (TextResponseBuilder data) = data"
  by (simp add: payload_def TextResponseBuilder_def)












section \<open>Searching conversations by topic\<close>







section \<open>Attaching an embedding\<close>




lemma logged_unchanged: "db\<lparr>conversations_summary := conversations_summary db\<rparr> = db"
  by simp







section \<open>Recording turns concurrently\<close>














lemma post_message_steps:
  "interleave [First, First, First] a b ((Received, pb), db)
     = (case post_message db a of (pa, db') \<Rightarrow> ((pa, pb), db'))"
  by (simp add: post_message_def split: prod.splits)

section \<open>The REST route of the semantic search\<close>

lemma rest_empty_store:
  "post_semantic_search empty_db (Some [1, 2, 3]) None None None
     = (respond 200
          (JObject [(''success'', JBool True),
                    (''data'', JObject [(''query'', JString []),
                                        (''results'', JArray []),
                                        (''totalMatches'', JNumber 0)])]),
        logged (SelectSimilarSummaries [1, 2, 3] 0.7 5) empty_db)"
  by (simp add: post_semantic_search_def searchByText_def semanticSearch_outcome or_default_def
      similar_summaries_def order_by_def sql_limit_def round_half_away_def empty_db_def
      logged_def)

lemma rest_other_dimension:
  "post_semantic_search tool_db (Some [1, 2, 3]) None None None
     = (respond 500 (failure ''different vector dimensions''),
        logged (SelectSimilarSummaries [1, 2, 3] 0.7 5) tool_db)"
  by (simp add: post_semantic_search_def searchByText_def semanticSearch_outcome or_default_def
      tool_db_def empty_db_def summary_def logged_def ones_def)

text \<open>
  C6 as stated fails on the REST route, which hands a query vector of any length to
  \<open>searchByText\<close>: a vector of three components is searched for. Against a store
  without embeddings the search succeeds with no result; against a store with one, the
  statement is sent and the store rejects the comparison.
\<close>

theorem search_validation_counterexample:
  "length [1, 2, 3 :: real] \<noteq> 1536
   \<and> post_semantic_search empty_db (Some [1, 2, 3]) None None None
     = (respond 200
          (JObject [(''success'', JBool True),
                    (''data'', JObject [(''query'', JString []),
                                        (''results'', JArray []),
                                        (''totalMatches'', JNumber 0)])]),
        logged (SelectSimilarSummaries [1, 2, 3] 0.7 5) empty_db)
   \<and> post_semantic_search tool_db (Some [1, 2, 3]) None None None
     = (respond 500 (failure ''different vector dimensions''),
        logged (SelectSimilarSummaries [1, 2, 3] 0.7 5) tool_db)
   \<and> sent tool_db (logged (SelectSimilarSummaries [1, 2, 3] 0.7 5) tool_db)
       = [SelectSimilarSummaries [1, 2, 3] 0.7 5]"
  by (simp add: rest_empty_store rest_other_dimension sent_def)

lemma with_embedding_all:
  "with_embedding (map (\<lambda>i. summary (f i) (Some e) (g i)) xs)
     = map (\<lambda>i. (summary (f i) (Some e) (g i), e)) xs"
  by (induction xs) (simp_all add: summary_def)

lemma crowded_candidates:
  "with_embedding (conversations_summary crowded_db)
     = map (\<lambda>i. (summary (int i) (Some ones) (int i), ones)) [0 ..< 21]"
  unfolding crowded_db_def by (simp add: with_embedding_all del: upt_Suc)

lemma crowded_distance [simp]: "cosine_distance crowded_db = pg_cosine_distance"
  by (simp add: crowded_db_def empty_db_def)

lemma crowded_length: "length (similar_summaries crowded_db ones 0.7) = 21"
  by (simp add: similar_summaries_def order_by_def crowded_candidates filter_map comp_def
      del: upt_Suc)

lemma crowded_search:
  "semanticSearch crowded_db ones 50 0.7
     = (Inr (similar_summaries crowded_db ones 0.7),
        logged (SelectSimilarSummaries ones 0.7 50) crowded_db)"
proof -
  have "outage crowded_db (length (statements crowded_db)) = None"
    by (simp add: crowded_db_def empty_db_def)
  moreover have "\<not> list_ex (\<lambda>row. length (snd row) \<noteq> length ones)
                     (with_embedding (conversations_summary crowded_db))"
    by (simp add: crowded_candidates list_ex_iff del: upt_Suc)
  ultimately show ?thesis
    by (simp add: semanticSearch_outcome sql_limit_def round_half_away_def crowded_length)
qed

text \<open>
  C7 as stated fails on the REST route, which hands the caller's limit and threshold to
  \<open>searchByText\<close> as they are: the search is sent with limit 50 and threshold 1.5, and
  with limit 50 a store of 21 matching summaries yields 21 results.
\<close>

theorem search_clamp_counterexample:
  "sent tool_db (snd (post_semantic_search tool_db (Some ones) None (Some 50) (Some 1.5)))
     = [SelectSimilarSummaries ones 1.5 50]
   \<and> \<not> clamped_search (SelectSimilarSummaries ones 1.5 50)
   \<and> (case fst (searchByText crowded_db [] ones 50 0.7) of
         Inl e \<Rightarrow> False
       | Inr found \<Rightarrow> ts_totalMatches found = 21 \<and> length (ts_results found) = 21)"
proof -
  have "snd (post_semantic_search tool_db (Some ones) None (Some 50) (Some 1.5))
          = logged (SelectSimilarSummaries ones 1.5 50) tool_db"
    by (simp add: post_semantic_search_def searchByText_def semanticSearch_outcome or_default_def
        split: option.split sum.split)
  then show ?thesis
    by (simp add: sent_def searchByText_def crowded_search crowded_length)
qed

end
